theory Spec2Isabelle
  imports Complex_Main
begin

section \<open>Go values, failures and loops\<close>

text \<open>
  The Go functions modelled here either return normally, return a non-nil \<open>error\<close>
  (carrying its message), or panic on an index that is out of range. A result is a sum
  with the failure on the left.

  Go's \<open>int\<close> and \<open>int64\<close> are modelled as \<open>int\<close>: the modelled code only compares,
  copies and indexes with them. The configuration's multipliers and the parsed catalog
  columns are finite \<open>float64\<close> values, written as the real numbers they denote. The
  floating-point arithmetic of \<open>insertPoints\<close> and \<open>processProfile\<close> is a parameter of
  their models (see \<open>float_ops\<close> below): nothing is assumed of its rounding, of its
  infinities and NaN, or of \<open>math.Log\<close> and \<open>math.Exp\<close>.
\<close>


datatype failure = Panic | Error string

type_synonym 'a result = "failure + 'a"

text \<open>
  \<open>for i := 0; i < n; i++ { s = body i s }\<close>, stopping at the first failure:
  \<open>for_range n body s\<close> is the state after the first \<open>n\<close> iterations.
\<close>

primrec for_range :: "nat \<Rightarrow> (nat \<Rightarrow> 's \<Rightarrow> 's result) \<Rightarrow> 's \<Rightarrow> 's result" where
  "for_range 0 body s = Inr s"
| "for_range (Suc k) body s =
     (case for_range k body s of Inl e \<Rightarrow> Inl e | Inr s' \<Rightarrow> body k s')"

section \<open>Tree mode (cmd/tree.go)\<close>

subsection \<open>treeFiles\<close>

text \<open>
  The test of \<open>treeFiles\<close> on one directory entry's name:
  \<open>n > 4 && name[:5] == "tree_" && name[n-4:] == ".dat"\<close>.
\<close>

definition is_tree_name :: "string \<Rightarrow> bool" where
  "is_tree_name name =
     (let n = length name in 4 < n \<and> take 5 name = ''tree_'' \<and> drop (n - 4) name = ''.dat'')"

text \<open>
  The loop over the directory entries; \<open>join name\<close> stands for
  \<open>path.Join(gConfig.treeDir, name)\<close>.
\<close>

primrec treeFiles_loop :: "(string \<Rightarrow> string) \<Rightarrow> string list \<Rightarrow> string list \<Rightarrow> string list" where
  "treeFiles_loop join names [] = names"
| "treeFiles_loop join names (name # infos) =
     treeFiles_loop join (if is_tree_name name then names @ [join name] else names) infos"

text \<open>
  \<open>treeFiles\<close>: \<open>readDir\<close> is what \<open>ioutil.ReadDir(gConfig.treeDir)\<close> returned, the
  error's message or the names of the entries.
\<close>

definition treeFiles :: "string + string list \<Rightarrow> (string \<Rightarrow> string) \<Rightarrow> string list result" where
  "treeFiles readDir join =
     (case readDir of
        Inl err \<Rightarrow> Inl (Error err)
      | Inr infos \<Rightarrow> Inr (treeFiles_loop join [] infos))"

subsection \<open>TreeConfig.Run\<close>

text \<open>
  One iteration of the loop that concatenates the histories (lines 43 to 51): the state is
  the pair \<open>(ids, snaps)\<close>. The loop ranges over \<open>idSets\<close>, so only \<open>snapSets[i]\<close>
  can be out of range.
\<close>

definition sentinel_step ::
  "int list list \<Rightarrow> int list list \<Rightarrow> nat \<Rightarrow> int list \<times> int list \<Rightarrow> (int list \<times> int list) result" where
  "sentinel_step idSets snapSets i st =
     (case st of (ids, snaps) \<Rightarrow>
        if i < length snapSets then
          (let ids' = ids @ idSets ! i; snaps' = snaps @ snapSets ! i in
             if int i \<noteq> int (length idSets) - 1
             then Inr (ids' @ [- 1], snaps' @ [- 1])
             else Inr (ids', snaps'))
        else Inl Panic)"

definition concat_histories :: "int list list \<Rightarrow> int list list \<Rightarrow> (int list \<times> int list) result" where
  "concat_histories idSets snapSets =
     for_range (length idSets) (sentinel_step idSets snapSets) ([], [])"

text \<open>
  One iteration of the filter loop (lines 58 to 64), which ranges over \<open>lines\<close> and reads
  \<open>snaps[i]\<close>.
\<close>

definition filter_step ::
  "string list \<Rightarrow> int list \<Rightarrow> int \<Rightarrow> int \<Rightarrow> nat \<Rightarrow> string list \<Rightarrow> string list result" where
  "filter_step lines snaps snapMin snapMax i fLines =
     (if i < length snaps then
        (if snaps ! i \<le> snapMin \<and> snaps ! i \<ge> snapMax
         then Inr (fLines @ [lines ! i])
         else Inr fLines)
      else Inl Panic)"

definition filter_lines :: "string list \<Rightarrow> int list \<Rightarrow> int \<Rightarrow> int \<Rightarrow> string list result" where
  "filter_lines lines snaps snapMin snapMax =
     for_range (length lines) (filter_step lines snaps snapMin snapMax) []"

text \<open>
  What \<open>TreeConfig.Run\<close> takes from outside this file: the catalog parser and formatter,
  the directory listing, the tree reader and the global configuration's snapshot range.
\<close>

record tree_env =
  parseCols :: "string list \<Rightarrow> string + int list list"
  readDir :: "string + string list"
  pathJoin :: "string \<Rightarrow> string"
  haloHistories :: "string list \<Rightarrow> int list \<Rightarrow> string + (int list list \<times> int list list)"
  formatCols :: "int list \<Rightarrow> int list \<Rightarrow> string list"
  commentString :: string
  snapMin :: int
  snapMax :: int

definition TreeConfig_Run :: "tree_env \<Rightarrow> string list \<Rightarrow> string list result" where
  "TreeConfig_Run env stdin =
     (case parseCols env stdin of
        Inl err \<Rightarrow> Inl (Error err)
      | Inr intCols \<Rightarrow>
          if length intCols = 0 then Inl Panic
          else
            let inputIDs = intCols ! 0 in
            (case treeFiles (readDir env) (pathJoin env) of
               Inl f \<Rightarrow> Inl f
             | Inr trees \<Rightarrow>
                 (case haloHistories env trees inputIDs of
                    Inl err \<Rightarrow> Inl (Error err)
                  | Inr (idSets, snapSets) \<Rightarrow>
                      (case concat_histories idSets snapSets of
                         Inl f \<Rightarrow> Inl f
                       | Inr (ids, snaps) \<Rightarrow>
                           (case filter_lines (formatCols env ids snaps) snaps
                                   (snapMin env) (snapMax env) of
                              Inl f \<Rightarrow> Inl f
                            | Inr fLines \<Rightarrow> Inr (commentString env # fLines))))))"

text \<open>
  The framing the specification describes: the sequences in order, with one separator
  between two consecutive sequences and none before the first or after the last.
\<close>

fun framed :: "'a \<Rightarrow> 'a list list \<Rightarrow> 'a list" where
  "framed sep [] = []"
| "framed sep [xs] = xs"
| "framed sep (xs # ys # yss) = xs @ [sep] @ framed sep (ys # yss)"

section \<open>Profile mode (ProfConfig)\<close>

record ProfConfig =
  bins :: int
  rMaxMult :: real
  rMinMult :: real

subsection \<open>validate\<close>

text \<open>
  The error \<open>validate\<close> returns names a variable and carries the value the message
  prints.
\<close>

datatype config_error = BadInt string int | BadFloat string real

definition validate :: "ProfConfig \<Rightarrow> config_error option" where
  "validate config =
     (if bins config < 0 then Some (BadInt ''Bins'' (bins config))
      else if rMinMult config \<le> 0 then Some (BadFloat ''RMinMult'' (rMinMult config))
      else if rMaxMult config \<le> 0 then Some (BadFloat ''RMinMult'' (rMinMult config))
      else None)"


subsection \<open>Floating-point arithmetic\<close>

text \<open>
  \<open>insertPoints\<close> computes with \<open>float32\<close> (the sphere, the particles, the range test)
  and with \<open>float64\<close> (the logarithms, the bin index, the bins); \<open>processProfile\<close>
  computes with \<open>float64\<close>. The two types of values are the type parameters \<open>'s\<close> and
  \<open>'d\<close>, and each operation the code applies is a field: the \<open>float32\<close> operations
  \<open>+\<close>, \<open>-\<close>, \<open>*\<close> and \<open>\<le>\<close>, the conversions \<open>float32(x)\<close> and \<open>float64(x)\<close>, the
  \<open>float64\<close> operations \<open>+\<close>, \<open>-\<close>, \<open>*\<close> and \<open>/\<close>, \<open>math.Log\<close>, \<open>math.Exp\<close>, the
  \<open>float64\<close> nearest to a real number (a constant of the program, a configured
  multiplier, an integer converted by \<open>float64(n)\<close>, the exact product of two
  \<open>float64\<close> values) and the conversion \<open>int(x)\<close>. Each operation is applied on its
  own, in the order of the source (no fused multiply-add). \<open>a >= b\<close> is \<open>b <= a\<close>.
\<close>

record ('s, 'd) float_ops =
  add32 :: "'s \<Rightarrow> 's \<Rightarrow> 's"
  sub32 :: "'s \<Rightarrow> 's \<Rightarrow> 's"
  mul32 :: "'s \<Rightarrow> 's \<Rightarrow> 's"
  le32 :: "'s \<Rightarrow> 's \<Rightarrow> bool"
  to32 :: "'d \<Rightarrow> 's"
  to64 :: "'s \<Rightarrow> 'd"
  add64 :: "'d \<Rightarrow> 'd \<Rightarrow> 'd"
  sub64 :: "'d \<Rightarrow> 'd \<Rightarrow> 'd"
  mul64 :: "'d \<Rightarrow> 'd \<Rightarrow> 'd"
  div64 :: "'d \<Rightarrow> 'd \<Rightarrow> 'd"
  log64 :: "'d \<Rightarrow> 'd"
  exp64 :: "'d \<Rightarrow> 'd"
  float64_of :: "real \<Rightarrow> 'd"
  to_int :: "'d \<Rightarrow> int"

text \<open>Go's conversion \<open>int(x)\<close> of a finite float truncates towards zero.\<close>

definition go_int :: "real \<Rightarrow> int" where
  "go_int x = (if 0 \<le> x then \<lfloor>x\<rfloor> else \<lceil>x\<rceil>)"

text \<open>
  Exact arithmetic on real numbers. It is what the floating-point operations compute on
  an input where every intermediate result they meet is a finite number of the width
  the code uses, and it is applied here to such inputs only, to run the models.
\<close>

definition exact_ops :: "(real, real) float_ops" where
  "exact_ops =
     \<lparr>add32 = (\<lambda>x y. x + y), sub32 = (\<lambda>x y. x - y), mul32 = (\<lambda>x y. x * y),
      le32 = (\<lambda>x y. x \<le> y), to32 = (\<lambda>x. x), to64 = (\<lambda>x. x),
      add64 = (\<lambda>x y. x + y), sub64 = (\<lambda>x y. x - y), mul64 = (\<lambda>x y. x * y),
      div64 = (\<lambda>x y. x / y), log64 = ln, exp64 = exp,
      float64_of = (\<lambda>x. x), to_int = go_int\<rparr>"

subsection \<open>insertPoints\<close>

record 's Sphere =
  C :: "'s \<times> 's \<times> 's"
  R :: 's

text \<open>
  The loop of \<open>insertPoints\<close> over the particles \<open>xs\<close>, at index \<open>i\<close>, with the values
  computed before the loop as parameters. An out-of-range particle executes \<open>return\<close>:
  the function returns with the bins as they are. \<open>rhos[ir]\<close> and \<open>ms[i]\<close> panic when
  the index is out of range.
\<close>

fun insertPoints_loop ::
  "('s, 'd) float_ops \<Rightarrow> 'd \<Rightarrow> 'd \<Rightarrow> 's \<Rightarrow> 's \<Rightarrow> 's \<times> 's \<times> 's \<Rightarrow> 's list \<Rightarrow>
     nat \<Rightarrow> ('s \<times> 's \<times> 's) list \<Rightarrow> 'd list \<Rightarrow> 'd list result" where
  "insertPoints_loop ops lrMin dlr rMin2 rMax2 c ms i [] rhos = Inr rhos"
| "insertPoints_loop ops lrMin dlr rMin2 rMax2 c ms i (vec # xs) rhos =
     (case vec of (x, y, z) \<Rightarrow>
      case c of (x0, y0, z0) \<Rightarrow>
        let dx = sub32 ops x x0; dy = sub32 ops y y0; dz = sub32 ops z z0;
            r2 = add32 ops (add32 ops (mul32 ops dx dx) (mul32 ops dy dy)) (mul32 ops dz dz)
        in if le32 ops r2 rMin2 \<or> le32 ops rMax2 r2 then Inr rhos
           else
             let lr = div64 ops (log64 ops (to64 ops r2)) (float64_of ops 2);
                 ir = to_int ops (div64 ops (sub64 ops lr lrMin) dlr)
             in if 0 \<le> ir \<and> nat ir < length rhos \<and> i < length ms
                then insertPoints_loop ops lrMin dlr rMin2 rMax2 c ms (Suc i) xs
                       (rhos[nat ir := add64 ops (rhos ! nat ir) (to64 ops (ms ! i))])
                else Inl Panic)"

definition insertPoints ::
  "('s, 'd) float_ops \<Rightarrow> 'd list \<Rightarrow> 's Sphere \<Rightarrow> ('s \<times> 's \<times> 's) list \<Rightarrow> 's list \<Rightarrow>
     ProfConfig \<Rightarrow> 'd list result" where
  "insertPoints ops rhos s xs ms config =
     (let lrMax = log64 ops (mul64 ops (to64 ops (R s)) (float64_of ops (rMaxMult config)));
          lrMin = log64 ops (mul64 ops (to64 ops (R s)) (float64_of ops (rMinMult config)));
          dlr = div64 ops (sub64 ops lrMax lrMin) (float64_of ops (real_of_int (bins config)));
          rMax2 = mul32 ops (R s) (to32 ops (float64_of ops (rMaxMult config)));
          rMin2 = mul32 ops (R s) (to32 ops (float64_of ops (rMinMult config)));
          rMax2 = mul32 ops rMax2 rMax2;
          rMin2 = mul32 ops rMin2 rMin2
      in insertPoints_loop ops lrMin dlr rMin2 rMax2 (C s) ms 0 xs rhos)"

text \<open>
  For the statements: the squared distance \<open>r2\<close> the loop computes for a particle, and
  the two bounds \<open>rMin2\<close> and \<open>rMax2\<close> it is compared with.
\<close>

definition r2_of :: "('s, 'd) float_ops \<Rightarrow> 's \<times> 's \<times> 's \<Rightarrow> 's \<times> 's \<times> 's \<Rightarrow> 's" where
  "r2_of ops c vec =
     (case vec of (x, y, z) \<Rightarrow> case c of (x0, y0, z0) \<Rightarrow>
        add32 ops
          (add32 ops (mul32 ops (sub32 ops x x0) (sub32 ops x x0))
                     (mul32 ops (sub32 ops y y0) (sub32 ops y y0)))
          (mul32 ops (sub32 ops z z0) (sub32 ops z z0)))"

definition rMin2_of :: "('s, 'd) float_ops \<Rightarrow> 's Sphere \<Rightarrow> ProfConfig \<Rightarrow> 's" where
  "rMin2_of ops s config =
     mul32 ops (mul32 ops (R s) (to32 ops (float64_of ops (rMinMult config))))
               (mul32 ops (R s) (to32 ops (float64_of ops (rMinMult config))))"

definition rMax2_of :: "('s, 'd) float_ops \<Rightarrow> 's Sphere \<Rightarrow> ProfConfig \<Rightarrow> 's" where
  "rMax2_of ops s config =
     mul32 ops (mul32 ops (R s) (to32 ops (float64_of ops (rMaxMult config))))
               (mul32 ops (R s) (to32 ops (float64_of ops (rMaxMult config))))"

subsection \<open>processProfile\<close>

text \<open>
  One iteration of the loop of \<open>processProfile\<close>, which ranges over \<open>rs\<close> and also
  indexes \<open>rhos\<close>; the state is the pair \<open>(rs, rhos)\<close> of the two slices it writes.
\<close>

definition processProfile_step ::
  "('s, 'd) float_ops \<Rightarrow> 'd \<Rightarrow> 'd \<Rightarrow> nat \<Rightarrow> 'd list \<times> 'd list \<Rightarrow> ('d list \<times> 'd list) result" where
  "processProfile_step ops dlr lrMin j st =
     (case st of (rs, rhos) \<Rightarrow>
        let rs' = rs[j := exp64 ops (add64 ops lrMin
                      (mul64 ops dlr (add64 ops (float64_of ops (real j)) (float64_of ops 0.5))))];
            rLo = exp64 ops (add64 ops (mul64 ops dlr (float64_of ops (real j))) lrMin);
            rHi = exp64 ops (add64 ops (mul64 ops dlr (float64_of ops (real (j + 1)))) lrMin);
            dV = div64 ops
                   (mul64 ops
                      (mul64 ops
                         (sub64 ops (mul64 ops (mul64 ops rHi rHi) rHi)
                                    (mul64 ops (mul64 ops rLo rLo) rLo))
                         (float64_of ops 4))
                      (float64_of ops pi))
                   (float64_of ops 3)
        in if j < length rhos then Inr (rs', rhos[j := div64 ops (rhos ! j) dV]) else Inl Panic)"

definition processProfile ::
  "('s, 'd) float_ops \<Rightarrow> 'd list \<Rightarrow> 'd list \<Rightarrow> 'd \<Rightarrow> 'd \<Rightarrow> ('d list \<times> 'd list) result" where
  "processProfile ops rs rhos rMin rMax =
     (let n = length rs;
          dlr = div64 ops (sub64 ops (log64 ops rMax) (log64 ops rMin)) (float64_of ops (real n));
          lrMin = log64 ops rMin
      in for_range n (processProfile_step ops dlr lrMin) (rs, rhos))"

subsection \<open>The normalization loop of ProfConfig.Run\<close>

text \<open>
  Lines 184 and 185: the support \<open>(rMin, rMax)\<close> the loop computes for halo \<open>i\<close> from the
  parsed float columns \<open>coords\<close>, reading \<open>coords[i][4]\<close>.
\<close>

definition halo_support :: "real list list \<Rightarrow> ProfConfig \<Rightarrow> nat \<Rightarrow> (real \<times> real) result" where
  "halo_support coords config i =
     (if i < length coords \<and> 4 < length (coords ! i)
      then (let rMax = coords ! i ! 4 * rMaxMult config;
                rMin = coords ! i ! 4 * rMinMult config
            in Inr (rMin, rMax))
      else Inl Panic)"


text \<open>
  Lines 183 to 187: the loop ranges over \<open>rSets\<close>. The products of lines 184 and 185
  are \<open>float64\<close> multiplications: \<open>processProfile\<close> receives the \<open>float64\<close> nearest to
  the exact products that \<open>halo_support\<close> returns, and writes the two rows of halo \<open>i\<close>
  in place.
\<close>

definition normalize_step ::
  "('s, 'd) float_ops \<Rightarrow> real list list \<Rightarrow> ProfConfig \<Rightarrow> nat \<Rightarrow> 'd list list \<times> 'd list list \<Rightarrow>
     ('d list list \<times> 'd list list) result" where
  "normalize_step ops coords config i st =
     (case st of (rSets, rhoSets) \<Rightarrow>
        (case halo_support coords config i of
           Inl f \<Rightarrow> Inl f
         | Inr (rMin, rMax) \<Rightarrow>
             if i < length rhoSets then
               (case processProfile ops (rSets ! i) (rhoSets ! i)
                       (float64_of ops rMin) (float64_of ops rMax) of
                  Inl f \<Rightarrow> Inl f
                | Inr (rs, rhos) \<Rightarrow> Inr (rSets[i := rs], rhoSets[i := rhos]))
             else Inl Panic))"

definition normalize_profiles ::
  "('s, 'd) float_ops \<Rightarrow> real list list \<Rightarrow> ProfConfig \<Rightarrow> 'd list list \<Rightarrow> 'd list list \<Rightarrow>
     ('d list list \<times> 'd list list) result" where
  "normalize_profiles ops coords config rSets rhoSets =
     for_range (length rSets) (normalize_step ops coords config) (rSets, rhoSets)"


section \<open>The entry point (shellfish.go)\<close>

subsection \<open>stdinLines\<close>

text \<open>\<open>strings.Split(text, "\n")\<close>: the pieces between the newlines, at least one.\<close>

fun split_newline :: "string \<Rightarrow> string list" where
  "split_newline [] = [[]]"
| "split_newline (c # cs) =
     (if c = CHR 0x0A then [] # split_newline cs
      else (c # hd (split_newline cs)) # tl (split_newline cs))"

text \<open>
  \<open>stdinLines\<close>: \<open>input\<close> is what \<open>ioutil.ReadAll(os.Stdin)\<close> returned, an error's
  message or the text.
\<close>

definition stdinLines :: "string + string \<Rightarrow> string + string list" where
  "stdinLines input =
     (case input of
        Inl err \<Rightarrow> Inl (''Error reading stdin: '' @ err @ ''.'')
      | Inr text \<Rightarrow>
          (let lines = split_newline text
           in if last lines = [] then Inr (butlast lines) else Inr lines))"

subsection \<open>main\<close>

text \<open>
  \<open>main\<close> from line 317 on, for a mode that is not \<open>help\<close>, \<open>version\<close> or \<open>hello\<close>.
  The outcome is what the process prints to standard output and its exit status (what
  it writes to standard error and to the log is left out). \<open>modeFound\<close> is the result of
  the lookup in \<open>cmd.ModeNames\<close>; \<open>setup\<close> is the first error of the steps between
  reading the input and running the mode (the global configuration, the mode's
  configuration, the memo directory, the catalogs, the halos), if there is one; \<open>run\<close>
  is the mode's \<open>Run\<close>. A panic ends a Go process with status 2.
\<close>

type_synonym outcome = "string list \<times> nat"

definition main_mode ::
  "string \<Rightarrow> bool \<Rightarrow> string + string \<Rightarrow> string option \<Rightarrow> (string list \<Rightarrow> string list result) \<Rightarrow> outcome" where
  "main_mode mode modeFound input setup run =
     (if \<not> modeFound then ([''Shellfish terminating.''], 1)
      else
        (case (if mode \<in> set [''tree'', ''coord'', ''prof'', ''shell'', ''stats''] then
                 (case stdinLines input of
                    Inl err \<Rightarrow> Inl ([''Shellfish terminating.''], 1)
                  | Inr lines \<Rightarrow>
                      if length lines = 0 then Inl ([], 0)
                      else if length lines = 1 \<and> length (lines ! 0) \<ge> 9 \<and>
                              take 9 (lines ! 0) = ''Shellfish''
                      then Inl ([lines ! 0], 1)
                      else Inr lines)
               else Inr []) of
           Inl out \<Rightarrow> out
         | Inr lines \<Rightarrow>
             (case setup of
                Some err \<Rightarrow> ([''Shellfish terminating.''], 1)
              | None \<Rightarrow>
                  (case run lines of
                     Inl (Error err) \<Rightarrow> ([''Shellfish terminating.''], 1)
                   | Inl Panic \<Rightarrow> ([], 2)
                   | Inr out \<Rightarrow> (out, 0)))))"


section \<open>Loops that fail\<close>

lemma for_range_Panic:
  assumes "for_range n body s = Inl e" and "\<And>i s e. body i s = Inl e \<Longrightarrow> e = Panic"
  shows "e = Panic"
  using assms by (induction n arbitrary: e) (auto split: sum.splits)

text \<open>
  A loop whose body fails at some iteration \<open>k\<close> whatever the state fails, when a panic
  is the only failure of the body.
\<close>

lemma for_range_fails:
  assumes "k < n" and "\<And>s. body k s = Inl Panic"
    and "\<And>i s e. body i s = Inl e \<Longrightarrow> e = Panic"
  shows "for_range n body s = Inl Panic"
  using assms(1)
proof (induction n)
  case 0
  then show ?case by simp
next
  case (Suc n)
  show ?case
  proof (cases "for_range n body s")
    case (Inl e)
    then have "e = Panic" using for_range_Panic [of n body s e] assms(3) by blast
    then show ?thesis using Inl by simp
  next
    case (Inr s')
    then have "\<not> k < n" using Suc.IH by auto
    then have "k = n" using Suc.prems by simp
    then show ?thesis using Inr assms(2) by simp
  qed
qed

section \<open>Tree mode: the history stream\<close>

subsection \<open>Sentinel framing\<close>

lemma framed_concat:
  "framed s xss =
     concat (map (\<lambda>i. xss ! i @ (if int i \<noteq> int (length xss) - 1 then [s] else [])) [0..<length xss])"
proof (induction s xss rule: framed.induct)
  case (1 sep)
  show ?case by simp
next
  case (2 sep xs)
  show ?case by simp
next
  case (3 sep xs ys yss)
  have "[0..<length (xs # ys # yss)] = 0 # map Suc [0..<length (ys # yss)]"
    by (simp add: upt_conv_Cons map_Suc_upt del: upt_Suc)
  then show ?case using 3 by (simp add: comp_def del: upt_Suc)
qed

lemma sentinel_loop:
  assumes "length snapSets = length idSets" and "k \<le> length idSets"
  shows "for_range k (sentinel_step idSets snapSets) ([], []) =
     Inr (concat (map (\<lambda>i. idSets ! i @ (if int i \<noteq> int (length idSets) - 1 then [- 1] else [])) [0..<k]),
          concat (map (\<lambda>i. snapSets ! i @ (if int i \<noteq> int (length snapSets) - 1 then [- 1] else [])) [0..<k]))"
  using assms by (induction k) (simp_all add: sentinel_step_def)

lemma concat_histories_framed:
  assumes "length snapSets = length idSets"
  shows "concat_histories idSets snapSets = Inr (framed (- 1) idSets, framed (- 1) snapSets)"
  unfolding concat_histories_def using sentinel_loop [OF assms order_refl]
  by (simp add: framed_concat assms)

lemma zip_framed:
  assumes "list_all2 (\<lambda>a b. length a = length b) xss yss"
  shows "zip (framed s xss) (framed t yss) = framed (s, t) (map (\<lambda>(a, b). zip a b) (zip xss yss))"
  using assms
proof (induction s xss arbitrary: yss rule: framed.induct)
  case (1 sep)
  then show ?case by simp
next
  case (2 sep xs)
  then show ?case by (auto simp: list_all2_Cons1)
next
  case (3 sep xs ys yss')
  then show ?case by (auto simp: list_all2_Cons1)
qed

text \<open>
  Claim C7. When the tree reader returns one snapshot sequence per id sequence, of the
  same length (the branch of seed \<open>i\<close> as the pair \<open>idSets[i]\<close>, \<open>snapSets[i]\<close>), the
  loop of \<open>TreeConfig.Run\<close> returns normally, and the rows \<open>(id, snapshot)\<close> it has built
  are the branches in the order of the seeds, with exactly one row \<open>(-1, -1)\<close> between
  two consecutive branches and none before the first or after the last; an empty
  branch contributes no row and keeps the sentinels around it.
\<close>

theorem history_framing:
  assumes "list_all2 (\<lambda>a b. length a = length b) idSets snapSets"
  shows "concat_histories idSets snapSets = Inr (framed (- 1) idSets, framed (- 1) snapSets) \<and>
         zip (framed (- 1) idSets) (framed (- 1) snapSets) =
           framed (- 1, - 1) (map (\<lambda>(a, b). zip a b) (zip idSets snapSets))"
  using assms concat_histories_framed [of snapSets idSets] zip_framed [OF assms]
  by (simp add: list_all2_lengthD)

text \<open>
  The example of the specification: the seeds \<open>(5, 10)\<close> and \<open>(7, 10)\<close> with the branches
  \<open>[(5, 10), (3, 9)]\<close> and \<open>[(7, 10)]\<close>.
\<close>

theorem history_framing_witness:
  "list_all2 (\<lambda>a b. length a = length b) [[5, 3], [7]] [[10, 9], [10 :: int]] \<and>
   concat_histories [[5, 3], [7]] [[10, 9], [10]] = Inr ([5, 3, - 1, 7], [10, 9, - 1, 10]) \<and>
   zip [5, 3, - 1, 7] [10, 9, - 1, 10 :: int] = [(5 :: int, 10), (3, 9), (- 1, - 1), (7, 10)]"
  using history_framing [of "[[5, 3], [7]]" "[[10, 9], [10]]"] by simp

subsection \<open>The snapshot filter\<close>

lemma filter_loop:
  assumes "length snaps = length lines" and "k \<le> length lines"
  shows "for_range k (filter_step lines snaps lo hi) [] =
     Inr (map (\<lambda>i. lines ! i) (filter (\<lambda>i. snaps ! i \<le> lo \<and> snaps ! i \<ge> hi) [0..<k]))"
  using assms by (induction k) (simp_all add: filter_step_def)

text \<open>
  Claim C1. The claim keeps a row exactly when \<open>snapMin \<le> snapshot \<le> snapMax\<close>. The
  loop keeps a row when \<open>snapshot \<le> snapMin\<close> and \<open>snapshot \<ge> snapMax\<close>: with one line
  per row and a range \<open>snapMin < snapMax\<close> it keeps no row at all, the rows inside the
  range included.
\<close>

theorem filter_lines_inverted:
  assumes "length snaps = length lines" and "lo < hi"
  shows "filter_lines lines snaps lo hi = Inr []"
proof -
  have "filter (\<lambda>i. snaps ! i \<le> lo \<and> snaps ! i \<ge> hi) [0..<length lines] = []"
    using assms(2) by (auto simp: filter_empty_conv)
  then show ?thesis
    unfolding filter_lines_def using filter_loop [OF assms(1) order_refl, of lo hi] by simp
qed

text \<open>The range 5 to 10 of the specification, with a row at snapshot 3 and one at 7.\<close>

theorem filter_lines_inverted_witness:
  "length [3, 7 :: int] = length [''4 3'', ''2 7''] \<and> (5 :: int) < 10 \<and>
   filter_lines [''4 3'', ''2 7''] [3, 7] 5 10 = Inr []"
  using filter_lines_inverted [of "[3, 7]" "[''4 3'', ''2 7'']" 5 10] by simp

subsection \<open>Tree-file discovery\<close>

lemma treeFiles_loop_eq:
  "treeFiles_loop join names infos = names @ map join (filter is_tree_name infos)"
  by (induction infos arbitrary: names) simp_all

text \<open>
  Claim C10, as the code has it. \<open>treeFiles\<close> fails exactly when the directory cannot be
  listed, with the error of the listing; otherwise it returns, in the order of the
  listing, the joined paths of the entries whose names pass the test, which is the
  empty list when no name passes it.
\<close>

theorem treeFiles_result:
  "treeFiles (Inl err) join = Inl (Error err) \<and>
   treeFiles (Inr infos) join = Inr (map join (filter is_tree_name infos))"
  by (simp add: treeFiles_def treeFiles_loop_eq)

text \<open>
  The claim as stated fails on a directory that lists and holds no tree file:
  \<open>treeFiles\<close> returns the empty list and no error.
\<close>

theorem treeFiles_no_match_counterexample:
  "treeFiles (Inr [''README'', ''tree.dat'']) (\<lambda>name. ''trees/'' @ name) = Inr []"
  by (simp add: treeFiles_def is_tree_name_def)

section \<open>Profile mode: configuration\<close>

text \<open>
  Claim C9. The claim rejects a configuration exactly when the bin count or one of the
  two multipliers is not positive. \<open>validate\<close> tests \<open>bins < 0\<close>: it accepts exactly
  the configurations with \<open>0 \<le> bins\<close> and both multipliers positive, so it accepts
  \<open>bins = 0\<close>, which the claim rejects; it accepts the defaults, as the claim says.
\<close>

theorem validate_accepts:
  "(validate config = None) = (0 \<le> bins config \<and> 0 < rMinMult config \<and> 0 < rMaxMult config) \<and>
   validate \<lparr>bins = 0, rMaxMult = 3, rMinMult = 3 / 100\<rparr> = None \<and>
   validate \<lparr>bins = 150, rMaxMult = 3, rMinMult = 3 / 100\<rparr> = None"
  by (auto simp: validate_def)


section \<open>Profile mode: accumulation\<close>

lemma insertPoints_loop_out:
  assumes "le32 ops (r2_of ops c vec) rMin2 \<or> le32 ops rMax2 (r2_of ops c vec)"
  shows "insertPoints_loop ops lrMin dlr rMin2 rMax2 c ms i (vec # xs) rhos = Inr rhos"
  using assms by (auto simp: r2_of_def Let_def split: prod.splits)

text \<open>
  Claim C2. The claim has an out-of-range particle skipped and the rest of the block
  processed. In \<open>insertPoints\<close> the out-of-range test executes \<open>return\<close>: when the particle
  the loop is at fails the range test (\<open>r2 <= rMin2 || r2 >= rMax2\<close>, as the code
  computes the three values), the function returns the bins unchanged, whatever
  particles follow in the block and whatever the floating-point arithmetic.
\<close>

theorem insertPoints_early_return:
  assumes "le32 ops (r2_of ops (C s) vec) (rMin2_of ops s config) \<or>
           le32 ops (rMax2_of ops s config) (r2_of ops (C s) vec)"
  shows "insertPoints ops rhos s (vec # xs) ms config = Inr rhos"
  unfolding insertPoints_def Let_def
  using assms
  by (intro insertPoints_loop_out) (simp add: rMin2_of_def rMax2_of_def)

text \<open>
  A halo of radius 1 at the origin with the multipliers 1/2 and 2, so that
  \<open>rMin2 = 1/4\<close> and \<open>rMax2 = 4\<close>; every value of the range tests is exact in
  \<open>float32\<close>. The particle at distance 4 (\<open>r2 = 16\<close>) is out of range; the particle at
  distance 1 after it (\<open>r2 = 1\<close>) is in range, and its mass 7 reaches no bin.
\<close>

theorem insertPoints_early_return_witness:
  "le32 exact_ops
     (rMax2_of exact_ops \<lparr>C = (0, 0, 0), R = 1\<rparr> \<lparr>bins = 2, rMaxMult = 2, rMinMult = 1 / 2\<rparr>)
     (r2_of exact_ops (C \<lparr>C = (0, 0, 0), R = 1\<rparr>) (4, 0, 0)) \<and>
   rMin2_of exact_ops \<lparr>C = (0, 0, 0), R = 1\<rparr> \<lparr>bins = 2, rMaxMult = 2, rMinMult = 1 / 2\<rparr> = 1 / 4 \<and>
   rMax2_of exact_ops \<lparr>C = (0, 0, 0), R = 1\<rparr> \<lparr>bins = 2, rMaxMult = 2, rMinMult = 1 / 2\<rparr> = 4 \<and>
   r2_of exact_ops (0, 0, 0) (4, 0, 0) = 16 \<and>
   r2_of exact_ops (0, 0, 0) (1, 0, 0) = 1 \<and>
   insertPoints exact_ops [0, 0] \<lparr>C = (0, 0, 0), R = 1\<rparr> [(4, 0, 0), (1, 0, 0)] [7, 7]
     \<lparr>bins = 2, rMaxMult = 2, rMinMult = 1 / 2\<rparr> = Inr [0, 0]"
  using insertPoints_early_return [of exact_ops "\<lparr>C = (0, 0, 0), R = 1\<rparr>" "(4, 0, 0)"
      "\<lparr>bins = 2, rMaxMult = 2, rMinMult = 1 / 2\<rparr>" "[0, 0]" "[(1, 0, 0)]" "[7, 7]"]
  by (simp add: rMin2_of_def rMax2_of_def r2_of_def exact_ops_def)

section \<open>Profile mode: normalization\<close>

lemma processProfile_Panic: "processProfile ops rs rhos rMin rMax = Inl e \<Longrightarrow> e = Panic"
  unfolding processProfile_def Let_def
  by (erule for_range_Panic)
     (auto simp: processProfile_step_def Let_def split: prod.splits if_splits)

lemma halo_support_Panic: "halo_support coords config i = Inl e \<Longrightarrow> e = Panic"
  by (auto simp: halo_support_def Let_def split: if_splits)

lemma normalize_step_Panic: "normalize_step ops coords config i st = Inl e \<Longrightarrow> e = Panic"
  by (auto simp: normalize_step_def split: prod.splits sum.splits if_splits
      dest: processProfile_Panic halo_support_Panic)

text \<open>
  The parsed float columns are the four columns X, Y, Z and R200m, each with one entry
  per halo: \<open>coords[c][h]\<close> is column \<open>c\<close> of halo \<open>h\<close>, as the loop that fills
  \<open>snapCoords\<close> reads them.
\<close>

lemma halo_support_columns:
  assumes "map length coords = [n, n, n, n]"
  shows "halo_support coords config i =
     (if i < 4 \<and> 4 < n
      then Inr (coords ! i ! 4 * rMinMult config, coords ! i ! 4 * rMaxMult config)
      else Inl Panic)"
proof -
  have "length (map length coords) = 4" unfolding assms by simp
  then have len: "length coords = 4" by simp
  have "length (coords ! i) = n" if "i < 4"
    using that assms len nth_map [of i coords length]
    by (auto simp: less_Suc_eq numeral_eq_Suc)
  then show ?thesis using len by (auto simp: halo_support_def Let_def)
qed

text \<open>
  Claim C3. The claim derives the support of halo \<open>i\<close> from \<open>R200m\<close> of halo \<open>i\<close>, which
  is \<open>coords[3][i]\<close>. The loop reads \<open>coords[i][4]\<close>: for four columns of \<open>n\<close> halos it
  takes column \<open>i\<close> of halo 4 when \<open>i < 4\<close> and \<open>n > 4\<close>, and panics otherwise.
\<close>

theorem halo_support_reads_row_4:
  assumes "map length coords = [n, n, n, n]"
  shows "halo_support coords config i =
     (if i < 4 \<and> 4 < n
      then Inr (coords ! i ! 4 * rMinMult config, coords ! i ! 4 * rMaxMult config)
      else Inl Panic)"
  using assms by (rule halo_support_columns)

text \<open>
  Five halos with X = 1, ..., 5 and R200m = 10, ..., 50 and the default multipliers: the
  support of halo 0 is computed from 5, the X of halo 4, not from its R200m, 10; halo 4
  has none.
\<close>

theorem halo_support_reads_row_4_witness:
  "map length [[1, 2, 3, 4, 5], [0, 0, 0, 0, 0], [0, 0, 0, 0, 0], [10, 20, 30, 40, 50 :: real]]
     = [5, 5, 5, 5] \<and>
   halo_support [[1, 2, 3, 4, 5], [0, 0, 0, 0, 0], [0, 0, 0, 0, 0], [10, 20, 30, 40, 50]]
     \<lparr>bins = 150, rMaxMult = 3, rMinMult = 3 / 100\<rparr> 0 = Inr (5 * (3 / 100), 5 * 3) \<and>
   halo_support [[1, 2, 3, 4, 5], [0, 0, 0, 0, 0], [0, 0, 0, 0, 0], [10, 20, 30, 40, 50]]
     \<lparr>bins = 150, rMaxMult = 3, rMinMult = 3 / 100\<rparr> 0 \<noteq> Inr (10 * (3 / 100), 10 * 3) \<and>
   halo_support [[1, 2, 3, 4, 5], [0, 0, 0, 0, 0], [0, 0, 0, 0, 0], [10, 20, 30, 40, 50]]
     \<lparr>bins = 150, rMaxMult = 3, rMinMult = 3 / 100\<rparr> 4 = Inl Panic"
  using halo_support_reads_row_4 [of "[[1, 2, 3, 4, 5], [0, 0, 0, 0, 0], [0, 0, 0, 0, 0],
      [10, 20, 30, 40, 50]]" 5 "\<lparr>bins = 150, rMaxMult = 3, rMinMult = 3 / 100\<rparr>"]
  by simp

text \<open>
  Claim C4. The claim has every access of the loop in bounds for any number \<open>n \<ge> 1\<close> of
  halos. For four columns of \<open>n \<ge> 1\<close> halos the loop panics on an index out of range,
  whatever the floating-point arithmetic: at halo 0 when \<open>n \<le> 4\<close> (\<open>coords[0][4]\<close>), at
  halo 4 at the latest otherwise (\<open>coords[4]\<close>).
\<close>

theorem normalize_profiles_panics:
  assumes "map length coords = [n, n, n, n]" and "0 < n" and "length rSets = n"
  shows "normalize_profiles ops coords config rSets rhoSets = Inl Panic"
proof -
  define k :: nat where "k = (if 4 < n then 4 else 0)"
  have k: "k < n" using assms(2) by (simp add: k_def)
  have "halo_support coords config k = Inl Panic"
    using halo_support_columns [OF assms(1), of config k] by (simp add: k_def)
  then have fail: "\<And>st. normalize_step ops coords config k st = Inl Panic"
    by (simp add: normalize_step_def split: prod.splits)
  show ?thesis
    unfolding normalize_profiles_def assms(3)
    by (rule for_range_fails [of k n "normalize_step ops coords config", OF k fail])
       (rule normalize_step_Panic)
qed

text \<open>One halo, two bins.\<close>

theorem normalize_profiles_panics_witness:
  "map length [[1], [2], [3], [4 :: real]] = [1, 1, 1, 1] \<and> (0 :: nat) < 1 \<and>
   length [[0, 0 :: real]] = 1 \<and>
   normalize_profiles exact_ops [[1], [2], [3], [4]]
     \<lparr>bins = 2, rMaxMult = 3, rMinMult = 3 / 100\<rparr> [[0, 0]] [[0, 0]] = Inl Panic"
  using normalize_profiles_panics [of "[[1], [2], [3], [4]]" 1 "[[0, 0]]" exact_ops
      "\<lparr>bins = 2, rMaxMult = 3, rMinMult = 3 / 100\<rparr>" "[[0, 0]]"]
  by simp

section \<open>Empty input\<close>

lemma stdinLines_empty: "stdinLines (Inr '''') = Inr []"
  by (simp add: stdinLines_def)

lemma concat_histories_Nil: "concat_histories [] [] = Inr ([], [])"
  by (simp add: concat_histories_def)

lemma TreeConfig_Run_no_rows:
  assumes "parseCols env lines = Inr [[], []]"
    and "treeFiles (readDir env) (pathJoin env) = Inr trees"
    and "haloHistories env trees [] = Inr ([], [])"
    and "formatCols env [] [] = []"
  shows "TreeConfig_Run env lines = Inr [commentString env]"
  using assms by (simp add: TreeConfig_Run_def concat_histories_Nil filter_lines_def)

text \<open>
  Claim C8, as the code has it. On an empty standard input (no line) \<open>main\<close> returns
  before it runs the mode: it prints nothing, not even the header, and ends with status
  0, in tree mode and in profile mode alike. On an input that has lines and no data row,
  tree mode prints the header line alone and ends with status 0: the input is not the
  single line of an upstream failure, the steps before the mode succeed, the parser
  returns the two integer columns empty, the tree files are found, the tree reader
  returns no history for no seed and the formatter no line for no row.
\<close>

theorem empty_input:
  "main_mode ''tree'' True (Inr '''') setup run = ([], 0) \<and>
   main_mode ''prof'' True (Inr '''') setup run = ([], 0) \<and>
   (stdinLines input = Inr lines \<and> lines \<noteq> [] \<and>
    \<not> (length lines = 1 \<and> length (lines ! 0) \<ge> 9 \<and> take 9 (lines ! 0) = ''Shellfish'') \<and>
    parseCols env lines = Inr [[], []] \<and>
    treeFiles (readDir env) (pathJoin env) = Inr trees \<and>
    haloHistories env trees [] = Inr ([], []) \<and>
    formatCols env [] [] = []
      \<longrightarrow> main_mode ''tree'' True input None (TreeConfig_Run env) = ([commentString env], 0))"
proof (intro conjI impI)
  show "main_mode ''tree'' True (Inr '''') setup run = ([], 0)"
    by (simp add: main_mode_def stdinLines_empty)
  show "main_mode ''prof'' True (Inr '''') setup run = ([], 0)"
    by (simp add: main_mode_def stdinLines_empty)
next
  assume a: "stdinLines input = Inr lines \<and> lines \<noteq> [] \<and>
    \<not> (length lines = 1 \<and> length (lines ! 0) \<ge> 9 \<and> take 9 (lines ! 0) = ''Shellfish'') \<and>
    parseCols env lines = Inr [[], []] \<and>
    treeFiles (readDir env) (pathJoin env) = Inr trees \<and>
    haloHistories env trees [] = Inr ([], []) \<and>
    formatCols env [] [] = []"
  then have run: "TreeConfig_Run env lines = Inr [commentString env]"
    by (intro TreeConfig_Run_no_rows [of env lines trees]) simp_all
  from a have "stdinLines input = Inr lines" and "lines \<noteq> []"
    and "\<not> (length lines = 1 \<and> length (lines ! 0) \<ge> 9 \<and> take 9 (lines ! 0) = ''Shellfish'')"
    by simp_all
  then show "main_mode ''tree'' True input None (TreeConfig_Run env) = ([commentString env], 0)"
    using run by (simp add: main_mode_def)
qed

text \<open>An input of one comment line, parsed into two empty columns.\<close>

theorem empty_input_witness:
  "stdinLines (Inr (''# ID Snapshot'' @ [CHR 0x0A])) = Inr [''# ID Snapshot''] \<and>
   parseCols \<lparr>parseCols = (\<lambda>lines. Inr [[], []]), readDir = Inr [''tree_0_0_0.dat''],
      pathJoin = (\<lambda>name. ''trees/'' @ name), haloHistories = (\<lambda>trees ids. Inr ([], [])),
      formatCols = (\<lambda>ids snaps. []), commentString = ''# ID Snapshot'',
      snapMin = 0, snapMax = 100\<rparr> [''# ID Snapshot''] = Inr [[], []] \<and>
   treeFiles (Inr [''tree_0_0_0.dat'']) (\<lambda>name. ''trees/'' @ name) = Inr [''trees/tree_0_0_0.dat''] \<and>
   main_mode ''tree'' True (Inr (''# ID Snapshot'' @ [CHR 0x0A])) None
     (TreeConfig_Run \<lparr>parseCols = (\<lambda>lines. Inr [[], []]), readDir = Inr [''tree_0_0_0.dat''],
        pathJoin = (\<lambda>name. ''trees/'' @ name), haloHistories = (\<lambda>trees ids. Inr ([], [])),
        formatCols = (\<lambda>ids snaps. []), commentString = ''# ID Snapshot'',
        snapMin = 0, snapMax = 100\<rparr>) = ([''# ID Snapshot''], 0) \<and>
   main_mode ''tree'' True (Inr '''') None (\<lambda>lines. Inr [''# ID Snapshot'']) = ([], 0)"
proof -
  have l: "stdinLines (Inr (''# ID Snapshot'' @ [CHR 0x0A])) = Inr [''# ID Snapshot'']"
    by (simp add: stdinLines_def)
  have t: "treeFiles (Inr [''tree_0_0_0.dat'']) (\<lambda>name. ''trees/'' @ name) = Inr [''trees/tree_0_0_0.dat'']"
    by (simp add: treeFiles_def is_tree_name_def)
  show ?thesis
    using empty_input [of None "\<lambda>lines. Inr [''# ID Snapshot'']"
      "Inr (''# ID Snapshot'' @ [CHR 0x0A])" "[''# ID Snapshot'']"
      "\<lparr>parseCols = (\<lambda>lines. Inr [[], []]), readDir = Inr [''tree_0_0_0.dat''],
        pathJoin = (\<lambda>name. ''trees/'' @ name), haloHistories = (\<lambda>trees ids. Inr ([], [])),
        formatCols = (\<lambda>ids snaps. []), commentString = ''# ID Snapshot'',
        snapMin = 0, snapMax = 100\<rparr>" "[''trees/tree_0_0_0.dat'']"] l t
    by simp
qed

text \<open>
  The claim as stated fails on the empty input: tree mode prints no header, and profile
  mode ends with status 0 and no error, even with a \<open>Run\<close> that would print the header
  or fail.
\<close>

theorem main_mode_empty_stdin_counterexample:
  "main_mode ''tree'' True (Inr '''') None (\<lambda>lines. Inr [''# ID Snapshot'']) = ([], 0) \<and>
   main_mode ''prof'' True (Inr '''') None (\<lambda>lines. Inl (Error ''No input IDs.'')) = ([], 0)"
  by (simp add: main_mode_def stdinLines_empty)

end
